theory Spec2Isabelle
  imports Complex_Main "HOL-Library.Sublist" "HOL-Library.Multiset"
begin

section \<open>Python values used by the salon routes\<close>

text \<open>
  The routes of \<^verbatim>\<open>salon_routes.py\<close> compute on Python floats. A float is modelled as a
  real number or one of the three special values; arithmetic on the finite values is the
  arithmetic of the reals (rounding of the binary representation is not part of the model),
  the special values follow IEEE 754 as Python's \<^verbatim>\<open>float\<close> and \<^verbatim>\<open>math\<close> module do.
  An integer decoded from JSON behaves like the float of the same value in every operation
  used here, so it is the same \<open>Num\<close>; an integer beyond the range of a float is outside
  the model.
\<close>

datatype pyfloat = Num real | PosInf | NegInf | NaN

text \<open>
  The values a decoded JSON body and its fields can be: \<^verbatim>\<open>None\<close>, a boolean, a number, a
  string, a list or a dictionary (an association list, looked up from the front).
\<close>

datatype pyvalue =
    PNone
  | PBool bool
  | PNum pyfloat
  | PStr string
  | PList "pyvalue list"
  | PDict "(string \<times> pyvalue) list"

text \<open>
  The exceptions the routes can meet; \<open>HTTPException\<close> is the one \<^verbatim>\<open>request.json\<close> raises
  for a request without a JSON body that can be decoded.
\<close>

datatype error = TypeError | ValueError | AttributeError | OverflowError | HTTPException

text \<open>
  Truthiness: \<^verbatim>\<open>None\<close>, \<^verbatim>\<open>False\<close>, zero and the empty string, list and dictionary are
  falsy, every other value (also NaN) is truthy.
\<close>

fun truthy :: "pyvalue \<Rightarrow> bool" where
  "truthy PNone = False"
| "truthy (PBool b) = b"
| "truthy (PNum (Num x)) = (x \<noteq> 0)"
| "truthy (PNum _) = True"
| "truthy (PStr s) = (s \<noteq> [])"
| "truthy (PList xs) = (xs \<noteq> [])"
| "truthy (PDict kvs) = (kvs \<noteq> [])"

text \<open>
  \<^verbatim>\<open>data.get(key, default)\<close>: only a dictionary has the method; on any other value the
  attribute access raises \<^verbatim>\<open>AttributeError\<close>.
\<close>

definition dict_get :: "(string \<times> pyvalue) list \<Rightarrow> string \<Rightarrow> pyvalue \<Rightarrow> pyvalue" where
  "dict_get kvs key dflt = (case map_of kvs key of None \<Rightarrow> dflt | Some v \<Rightarrow> v)"

fun py_get :: "pyvalue \<Rightarrow> string \<Rightarrow> pyvalue \<Rightarrow> error + pyvalue" where
  "py_get (PDict kvs) key dflt = Inr (dict_get kvs key dflt)"
| "py_get _ key dflt = Inl AttributeError"

text \<open>The value of a nullable \<^verbatim>\<open>Float\<close> column as the row's attribute gives it.\<close>

fun column_value :: "pyfloat option \<Rightarrow> pyvalue" where
  "column_value None = PNone"
| "column_value (Some v) = PNum v"

text \<open>Sequencing of computations that may raise.\<close>

fun and_then :: "error + 'a \<Rightarrow> ('a \<Rightarrow> error + 'b) \<Rightarrow> error + 'b" where
  "and_then (Inl e) f = Inl e"
| "and_then (Inr v) f = f v"

text \<open>Multiplication by a positive literal (\<^verbatim>\<open>x / 2\<close>, \<^verbatim>\<open>2 * x\<close>, \<^verbatim>\<open>c * r\<close>).\<close>

fun py_scale :: "real \<Rightarrow> pyfloat \<Rightarrow> pyfloat" where
  "py_scale k (Num x) = Num (k * x)"
| "py_scale k v = v"

text \<open>
  \<^verbatim>\<open>math.radians\<close>: a number is converted (\<^verbatim>\<open>True\<close> and \<^verbatim>\<open>False\<close> count as 1 and 0); any
  other argument raises \<^verbatim>\<open>TypeError\<close>.
\<close>

fun py_radians :: "pyvalue \<Rightarrow> error + pyfloat" where
  "py_radians (PNum v) = Inr (py_scale (pi / 180) v)"
| "py_radians (PBool b) = Inr (py_scale (pi / 180) (Num (if b then 1 else 0)))"
| "py_radians _ = Inl TypeError"

fun py_sub :: "pyfloat \<Rightarrow> pyfloat \<Rightarrow> pyfloat" where
  "py_sub (Num x) (Num y) = Num (x - y)"
| "py_sub NaN _ = NaN"
| "py_sub _ NaN = NaN"
| "py_sub PosInf PosInf = NaN"
| "py_sub NegInf NegInf = NaN"
| "py_sub PosInf _ = PosInf"
| "py_sub NegInf _ = NegInf"
| "py_sub (Num x) PosInf = NegInf"
| "py_sub (Num x) NegInf = PosInf"

fun py_add :: "pyfloat \<Rightarrow> pyfloat \<Rightarrow> pyfloat" where
  "py_add (Num x) (Num y) = Num (x + y)"
| "py_add NaN _ = NaN"
| "py_add _ NaN = NaN"
| "py_add PosInf NegInf = NaN"
| "py_add NegInf PosInf = NaN"
| "py_add PosInf _ = PosInf"
| "py_add NegInf _ = NegInf"
| "py_add (Num x) PosInf = PosInf"
| "py_add (Num x) NegInf = NegInf"

fun py_neg :: "pyfloat \<Rightarrow> pyfloat" where
  "py_neg (Num x) = Num (- x)"
| "py_neg PosInf = NegInf"
| "py_neg NegInf = PosInf"
| "py_neg NaN = NaN"

fun py_mul :: "pyfloat \<Rightarrow> pyfloat \<Rightarrow> pyfloat" where
  "py_mul (Num x) (Num y) = Num (x * y)"
| "py_mul NaN _ = NaN"
| "py_mul _ NaN = NaN"
| "py_mul PosInf (Num y) = (if y = 0 then NaN else if 0 < y then PosInf else NegInf)"
| "py_mul NegInf (Num y) = (if y = 0 then NaN else if 0 < y then NegInf else PosInf)"
| "py_mul (Num x) v = (if x = 0 then NaN else if 0 < x then v else py_neg v)"
| "py_mul PosInf v = v"
| "py_mul NegInf v = py_neg v"

text \<open>\<^verbatim>\<open>x ** 2\<close>.\<close>

fun py_sq :: "pyfloat \<Rightarrow> pyfloat" where
  "py_sq (Num x) = Num (x\<^sup>2)"
| "py_sq NaN = NaN"
| "py_sq _ = PosInf"

text \<open>
  The functions of \<^verbatim>\<open>math\<close>: they raise \<^verbatim>\<open>ValueError\<close> (math domain error) outside
  their domain and pass NaN through.
\<close>

fun py_sin :: "pyfloat \<Rightarrow> error + pyfloat" where
  "py_sin (Num x) = Inr (Num (sin x))"
| "py_sin NaN = Inr NaN"
| "py_sin _ = Inl ValueError"

fun py_cos :: "pyfloat \<Rightarrow> error + pyfloat" where
  "py_cos (Num x) = Inr (Num (cos x))"
| "py_cos NaN = Inr NaN"
| "py_cos _ = Inl ValueError"

fun py_sqrt :: "pyfloat \<Rightarrow> error + pyfloat" where
  "py_sqrt (Num x) = (if x < 0 then Inl ValueError else Inr (Num (sqrt x)))"
| "py_sqrt NaN = Inr NaN"
| "py_sqrt PosInf = Inr PosInf"
| "py_sqrt NegInf = Inl ValueError"

fun py_asin :: "pyfloat \<Rightarrow> error + pyfloat" where
  "py_asin (Num x) = (if x < - 1 \<or> 1 < x then Inl ValueError else Inr (Num (arcsin x)))"
| "py_asin NaN = Inr NaN"
| "py_asin _ = Inl ValueError"

text \<open>Comparison: every comparison with NaN is false.\<close>

fun py_le :: "pyfloat \<Rightarrow> pyfloat \<Rightarrow> bool" where
  "py_le (Num x) (Num y) = (x \<le> y)"
| "py_le NaN _ = False"
| "py_le _ NaN = False"
| "py_le NegInf _ = True"
| "py_le _ PosInf = True"
| "py_le _ _ = False"

fun py_lt :: "pyfloat \<Rightarrow> pyfloat \<Rightarrow> bool" where
  "py_lt (Num x) (Num y) = (x < y)"
| "py_lt NaN _ = False"
| "py_lt _ NaN = False"
| "py_lt PosInf _ = False"
| "py_lt _ NegInf = False"
| "py_lt _ _ = True"

text \<open>
  \<^verbatim>\<open>distance <= radius\<close> with a float on the left: a number on the right is compared
  (a boolean as 1 or 0), any other value raises \<^verbatim>\<open>TypeError\<close>.
\<close>

fun py_le_value :: "pyfloat \<Rightarrow> pyvalue \<Rightarrow> error + bool" where
  "py_le_value d (PNum r) = Inr (py_le d r)"
| "py_le_value d (PBool b) = Inr (py_le d (Num (if b then 1 else 0)))"
| "py_le_value d _ = Inl TypeError"

text \<open>
  \<^verbatim>\<open>round(x, 2)\<close>: to the nearest multiple of 0.01, a tie to the even one; infinities and
  NaN round to themselves.
\<close>

definition round_half_even :: "real \<Rightarrow> int" where
  "round_half_even x =
     (let f = \<lfloor>x\<rfloor>; d = x - of_int f
      in if d < 1 / 2 then f else if 1 / 2 < d then f + 1 else if even f then f else f + 1)"

fun py_round2 :: "pyfloat \<Rightarrow> pyfloat" where
  "py_round2 (Num x) = Num (of_int (round_half_even (x * 100)) / 100)"
| "py_round2 v = v"

section \<open>The distance function\<close>

text \<open>
  \<^verbatim>\<open>calculate_distance(lat1, lon1, lat2, lon2)\<close>: the guard is
  \<^verbatim>\<open>if not all([lat1, lon1, lat2, lon2])\<close>, a test of truthiness; then the four arguments
  go through \<^verbatim>\<open>math.radians\<close> and the Haversine formula is evaluated left to right.
\<close>

definition calculate_distance ::
  "pyvalue \<Rightarrow> pyvalue \<Rightarrow> pyvalue \<Rightarrow> pyvalue \<Rightarrow> error + pyfloat" where
  "calculate_distance lat1 lon1 lat2 lon2 =
     (if \<not> list_all truthy [lat1, lon1, lat2, lon2] then Inr PosInf
      else
        and_then (py_radians lat1) (\<lambda>lat1.
        and_then (py_radians lon1) (\<lambda>lon1.
        and_then (py_radians lat2) (\<lambda>lat2.
        and_then (py_radians lon2) (\<lambda>lon2.
          let dlat = py_sub lat2 lat1;
              dlon = py_sub lon2 lon1
          in
          and_then (py_sin (py_scale (1 / 2) dlat)) (\<lambda>s1.
          and_then (py_cos lat1) (\<lambda>c1.
          and_then (py_cos lat2) (\<lambda>c2.
          and_then (py_sin (py_scale (1 / 2) dlon)) (\<lambda>s2.
            let a = py_add (py_sq s1) (py_mul (py_mul c1 c2) (py_sq s2))
            in
            and_then (py_sqrt a) (\<lambda>q.
            and_then (py_asin q) (\<lambda>h.
              let c = py_scale 2 h;
                  r = 6371
              in Inr (py_scale r c))))))))))))"

text \<open>The formula of the specification, on real degrees.\<close>

definition haversine_a :: "real \<Rightarrow> real \<Rightarrow> real \<Rightarrow> real \<Rightarrow> real" where
  "haversine_a lat1 lon1 lat2 lon2 =
     (sin ((lat2 * pi / 180 - lat1 * pi / 180) / 2))\<^sup>2
     + cos (lat1 * pi / 180) * cos (lat2 * pi / 180)
       * (sin ((lon2 * pi / 180 - lon1 * pi / 180) / 2))\<^sup>2"

definition haversine_km :: "real \<Rightarrow> real \<Rightarrow> real \<Rightarrow> real \<Rightarrow> real" where
  "haversine_km lat1 lon1 lat2 lon2 =
     2 * arcsin (sqrt (haversine_a lat1 lon1 lat2 lon2)) * 6371"

section \<open>The persistence layer\<close>

text \<open>
  The models \<^verbatim>\<open>Salon\<close> and \<^verbatim>\<open>Barber\<close> (\<^verbatim>\<open>src/models/booking.py\<close>) are records with the
  fields the routes read. A table is the list of its rows in the order the persistence
  layer returns them.
\<close>

record salon =
  s_id :: int
  s_city :: string
  s_country :: string
  s_latitude :: "pyfloat option"
  s_longitude :: "pyfloat option"
  s_is_approved :: bool

record barber =
  b_id :: int
  b_salon_id :: int
  b_name :: string
  b_specialty :: string

record database =
  db_salons :: "salon list"
  db_barbers :: "barber list"

text \<open>
  Modelled from the spec: \<^verbatim>\<open>Salon.to_dict\<close> is defined in \<^verbatim>\<open>src/models/booking.py\<close>,
  which is not among the sources; the specification says that a salon serializes to a
  mapping of its fields, so the serialized view carries the fields of the row.
\<close>

type_synonym salon_dict = salon

definition to_dict :: "salon \<Rightarrow> salon_dict" where
  "to_dict s = s"

text \<open>\<^verbatim>\<open>Salon.query.filter_by(is_approved=True).all()\<close>\<close>

definition approved_salons :: "database \<Rightarrow> salon list" where
  "approved_salons db = filter s_is_approved (db_salons db)"

text \<open>
  \<^verbatim>\<open>Salon.query.get(salon_id)\<close>: the row with that primary key, or \<^verbatim>\<open>None\<close>. The id comes
  from the path segment \<^verbatim>\<open><int:salon_id>\<close>, a non-negative integer of any size; SQLite (the
  database that \<^verbatim>\<open>main.py\<close> configures by default) stores signed 64-bit integers, and
  binding a larger one raises \<^verbatim>\<open>OverflowError\<close>.
\<close>

definition query_get :: "database \<Rightarrow> nat \<Rightarrow> error + salon option" where
  "query_get db i =
     (if 2 ^ 63 \<le> i then Inl OverflowError
      else Inr (find (\<lambda>s. s_id s = int i) (db_salons db)))"

text \<open>\<^verbatim>\<open>Barber.query.filter_by(salon_id=...).all()\<close>\<close>

definition barbers_of :: "database \<Rightarrow> int \<Rightarrow> barber list" where
  "barbers_of db i = filter (\<lambda>b. b_salon_id b = i) (db_barbers db)"

text \<open>
  \<^verbatim>\<open>column.ilike(pattern)\<close> compares the lower-cased column with the lower-cased pattern
  by SQL \<^verbatim>\<open>LIKE\<close>: in the pattern \<^verbatim>\<open>%\<close> stands for any run of characters and \<^verbatim>\<open>_\<close> for
  any single character; every other character stands for itself, and there is no escape
  character (SQLite, the database that \<^verbatim>\<open>main.py\<close> configures by default). Lower-casing is
  the one of the ASCII letters.
\<close>

definition ascii_lower :: "char \<Rightarrow> char" where
  "ascii_lower c =
     (let n = (of_char c :: nat) in if 65 \<le> n \<and> n \<le> 90 then char_of (n + 32) else c)"

definition sql_lower :: "string \<Rightarrow> string" where
  "sql_lower s = map ascii_lower s"

fun like_match :: "string \<Rightarrow> string \<Rightarrow> bool" where
  "like_match [] [] = True"
| "like_match [] (c # cs) = False"
| "like_match (p # ps) [] = (p = CHR ''%'' \<and> like_match ps [])"
| "like_match (p # ps) (c # cs) =
     (if p = CHR ''%'' then like_match ps (c # cs) \<or> like_match (p # ps) cs
      else (p = CHR ''_'' \<or> p = c) \<and> like_match ps cs)"

definition ilike :: "string \<Rightarrow> string \<Rightarrow> bool" where
  "ilike column pattern = like_match (sql_lower pattern) (sql_lower column)"

section \<open>The routes\<close>

datatype 'a response =
    Success 'a
  | BadRequest
  | Forbidden
  | NotFound
  | InternalError error

fun status_code :: "'a response \<Rightarrow> nat" where
  "status_code (Success _) = 200"
| "status_code BadRequest = 400"
| "status_code Forbidden = 403"
| "status_code NotFound = 404"
| "status_code (InternalError _) = 500"

subsection \<open>\<^verbatim>\<open>POST /nearby\<close>\<close>

text \<open>
  The request is its body as \<^verbatim>\<open>request.json\<close> decodes it: any JSON value, or no body that
  can be decoded (\<open>None\<close>), for which \<^verbatim>\<open>request.json\<close> raises. Every exception inside the
  route is caught by \<^verbatim>\<open>except Exception\<close> and answered with 500.
\<close>

record salon_distance =
  sd_salon :: salon_dict
  sd_distance :: pyfloat

record nearby_result =
  nr_salons :: "salon_distance list"
  nr_total_count :: nat
  nr_search_radius :: pyvalue

text \<open>
  The loop over the approved salons, with the list \<^verbatim>\<open>nearby_salons\<close> as accumulator; an
  exception raised by \<^verbatim>\<open>calculate_distance\<close> leaves the loop.
\<close>

fun nearby_loop ::
  "pyvalue \<Rightarrow> pyvalue \<Rightarrow> pyvalue \<Rightarrow> salon list \<Rightarrow> salon_distance list
   \<Rightarrow> error + salon_distance list" where
  "nearby_loop user_lat user_lon radius [] nearby_salons = Inr nearby_salons"
| "nearby_loop user_lat user_lon radius (salon # salons) nearby_salons =
     (if truthy (column_value (s_latitude salon)) \<and> truthy (column_value (s_longitude salon)) then
        (case calculate_distance user_lat user_lon
                (column_value (s_latitude salon)) (column_value (s_longitude salon)) of
           Inl e \<Rightarrow> Inl e
         | Inr distance \<Rightarrow>
             (case py_le_value distance radius of
                Inl e \<Rightarrow> Inl e
              | Inr near \<Rightarrow>
                  if near then
                    nearby_loop user_lat user_lon radius salons
                      (nearby_salons @
                         [\<lparr>sd_salon = to_dict salon, sd_distance = py_round2 distance\<rparr>])
                  else nearby_loop user_lat user_lon radius salons nearby_salons))
      else nearby_loop user_lat user_lon radius salons nearby_salons)"

text \<open>
  \<^verbatim>\<open>list.sort(key=...)\<close> is a stable sort that compares the keys with \<^verbatim>\<open><\<close>. It is
  modelled by the stable insertion sort, which yields the same list whenever \<^verbatim>\<open><\<close> orders
  the keys totally (no key is NaN).
\<close>

fun insort_by :: "('a \<Rightarrow> pyfloat) \<Rightarrow> 'a \<Rightarrow> 'a list \<Rightarrow> 'a list" where
  "insort_by key x [] = [x]"
| "insort_by key x (y # ys) =
     (if py_lt (key y) (key x) then y # insort_by key x ys else x # y # ys)"

fun sort_by :: "('a \<Rightarrow> pyfloat) \<Rightarrow> 'a list \<Rightarrow> 'a list" where
  "sort_by key [] = []"
| "sort_by key (x # xs) = insort_by key x (sort_by key xs)"

definition get_nearby_salons :: "pyvalue option \<Rightarrow> database \<Rightarrow> nearby_result response" where
  "get_nearby_salons body db =
     (case body of
        None \<Rightarrow> InternalError HTTPException
      | Some data \<Rightarrow>
     (case py_get data ''latitude'' PNone of
        Inl e \<Rightarrow> InternalError e
      | Inr user_lat \<Rightarrow>
     (case py_get data ''longitude'' PNone of
        Inl e \<Rightarrow> InternalError e
      | Inr user_lon \<Rightarrow>
     (case py_get data ''radius'' (PNum (Num 50)) of
        Inl e \<Rightarrow> InternalError e
      | Inr radius \<Rightarrow>
          if \<not> truthy user_lat \<or> \<not> truthy user_lon then BadRequest
          else
            (case nearby_loop user_lat user_lon radius (approved_salons db) [] of
               Inl e \<Rightarrow> InternalError e
             | Inr nearby_salons \<Rightarrow>
                 let sorted_salons = sort_by sd_distance nearby_salons
                 in Success \<lparr>nr_salons = sorted_salons,
                             nr_total_count = length sorted_salons,
                             nr_search_radius = radius\<rparr>)))))"

subsection \<open>\<^verbatim>\<open>GET /by_city\<close>, \<^verbatim>\<open>GET /all\<close> and \<^verbatim>\<open>GET /<salon_id>\<close>\<close>

record barber_summary =
  bs_id :: int
  bs_name :: string
  bs_specialty :: string

record salon_barbers =
  sb_salon :: salon_dict
  sb_barbers :: "barber_summary list"

record by_city_result =
  bc_salons :: "salon_barbers list"
  bc_total_count :: nat
  bc_filters :: "string option \<times> string option"

record all_result =
  al_salons :: "salon_barbers list"
  al_total_count :: nat

text \<open>
  \<^verbatim>\<open>if city:\<close> and \<^verbatim>\<open>if country:\<close> test truthiness: an absent parameter and the empty
  string add no filter.
\<close>

definition get_salons_by_city ::
  "string option \<Rightarrow> string option \<Rightarrow> database \<Rightarrow> by_city_result response" where
  "get_salons_by_city city country db =
     (let query = approved_salons db;
          query = (case city of
                     None \<Rightarrow> query
                   | Some c \<Rightarrow> if c = [] then query
                       else filter (\<lambda>s. ilike (s_city s) (''%'' @ c @ ''%'')) query);
          query = (case country of
                     None \<Rightarrow> query
                   | Some c \<Rightarrow> if c = [] then query
                       else filter (\<lambda>s. ilike (s_country s) (''%'' @ c @ ''%'')) query);
          salon_list =
            map (\<lambda>salon.
                   \<lparr>sb_salon = to_dict salon,
                    sb_barbers =
                      map (\<lambda>b. \<lparr>bs_id = b_id b, bs_name = b_name b, bs_specialty = b_specialty b\<rparr>)
                        (barbers_of db (s_id salon))\<rparr>)
              query
      in Success \<lparr>bc_salons = salon_list,
                  bc_total_count = length salon_list,
                  bc_filters = (city, country)\<rparr>)"

definition get_all_salons :: "database \<Rightarrow> all_result response" where
  "get_all_salons db =
     (let salons = approved_salons db;
          salon_list =
            map (\<lambda>salon.
                   \<lparr>sb_salon = to_dict salon,
                    sb_barbers =
                      map (\<lambda>b. \<lparr>bs_id = b_id b, bs_name = b_name b, bs_specialty = b_specialty b\<rparr>)
                        (barbers_of db (s_id salon))\<rparr>)
              salons
      in Success \<lparr>al_salons = salon_list, al_total_count = length salon_list\<rparr>)"

definition get_salon_details :: "nat \<Rightarrow> database \<Rightarrow> salon_barbers response" where
  "get_salon_details salon_id db =
     (case query_get db salon_id of
        Inl e \<Rightarrow> InternalError e
      | Inr None \<Rightarrow> NotFound
      | Inr (Some salon) \<Rightarrow>
          if \<not> s_is_approved salon then Forbidden
          else Success
            \<lparr>sb_salon = to_dict salon,
             sb_barbers =
               map (\<lambda>b. \<lparr>bs_id = b_id b, bs_name = b_name b, bs_specialty = b_specialty b\<rparr>)
                 (barbers_of db (s_id salon))\<rparr>)"

text \<open>A coordinate that is absent or a finite number (neither an infinity nor NaN).\<close>

fun finite_coordinate :: "pyfloat option \<Rightarrow> bool" where
  "finite_coordinate None = True"
| "finite_coordinate (Some (Num x)) = True"
| "finite_coordinate (Some _) = False"

section \<open>The location filter of the specification\<close>

text \<open>
  The filter as the specification words it: the text contains the given string as a
  substring, letter case ignored; a salon is kept when it is approved and its city and its
  country contain the strings that are given.
\<close>

definition spec_contains_ci :: "string \<Rightarrow> string \<Rightarrow> bool" where
  "spec_contains_ci needle text = sublist (sql_lower needle) (sql_lower text)"

definition spec_find_by_location :: "string option \<Rightarrow> string option \<Rightarrow> database \<Rightarrow> salon list" where
  "spec_find_by_location city country db =
     filter (\<lambda>s. s_is_approved s
               \<and> (case city of None \<Rightarrow> True | Some c \<Rightarrow> spec_contains_ci c (s_city s))
               \<and> (case country of None \<Rightarrow> True | Some c \<Rightarrow> spec_contains_ci c (s_country s)))
       (db_salons db)"

text \<open>The two characters with a meaning of their own in a \<^verbatim>\<open>LIKE\<close> pattern.\<close>

definition wildcard :: "char \<Rightarrow> bool" where
  "wildcard c = (c = CHR ''%'' \<or> c = CHR ''_'')"

section \<open>A sample persistence state\<close>

text \<open>
  Two approved salons at the same position, an approved salon without coordinates and an
  unapproved salon; it serves as the concrete input of the instances below.
\<close>

definition demo_db :: database where
  "demo_db =
     \<lparr>db_salons =
        [\<lparr>s_id = 1, s_city = ''Cairo'', s_country = ''Egypt'',
          s_latitude = Some (Num 30), s_longitude = Some (Num (312 / 10)), s_is_approved = True\<rparr>,
         \<lparr>s_id = 2, s_city = ''New Cairo'', s_country = ''Egypt'',
          s_latitude = Some (Num 30), s_longitude = Some (Num (312 / 10)), s_is_approved = True\<rparr>,
         \<lparr>s_id = 3, s_city = ''Giza'', s_country = ''Egypt'',
          s_latitude = None, s_longitude = None, s_is_approved = True\<rparr>,
         \<lparr>s_id = 4, s_city = ''CAIRO'', s_country = ''Egypt'',
          s_latitude = Some (Num 30), s_longitude = Some (Num (312 / 10)), s_is_approved = False\<rparr>],
      db_barbers =
        [\<lparr>b_id = 10, b_salon_id = 1, b_name = ''Omar'', b_specialty = ''Fade''\<rparr>,
         \<lparr>b_id = 11, b_salon_id = 2, b_name = ''Ali'', b_specialty = ''Beard''\<rparr>,
         \<lparr>b_id = 12, b_salon_id = 1, b_name = ''Sami'', b_specialty = ''Classic''\<rparr>]\<rparr>"

definition demo_request :: pyvalue where
  "demo_request =
     PDict [(''latitude'', PNum (Num 30)), (''longitude'', PNum (Num (312 / 10)))]"

definition demo_nearby_result :: nearby_result where
  "demo_nearby_result =
     \<lparr>nr_salons =
         [\<lparr>sd_salon = \<lparr>s_id = 1, s_city = ''Cairo'', s_country = ''Egypt'',
             s_latitude = Some (Num 30), s_longitude = Some (Num (312 / 10)), s_is_approved = True\<rparr>,
           sd_distance = Num 0\<rparr>,
          \<lparr>sd_salon = \<lparr>s_id = 2, s_city = ''New Cairo'', s_country = ''Egypt'',
             s_latitude = Some (Num 30), s_longitude = Some (Num (312 / 10)), s_is_approved = True\<rparr>,
           sd_distance = Num 0\<rparr>],
        nr_total_count = 2, nr_search_radius = PNum (Num 50)\<rparr>"

text \<open>An approved salon on the equator: its latitude is present and is 0.\<close>

definition equator_salon :: salon where
  "equator_salon =
     \<lparr>s_id = 5, s_city = ''Quito'', s_country = ''Ecuador'',
      s_latitude = Some (Num 0), s_longitude = Some (Num (312 / 10)), s_is_approved = True\<rparr>"

text \<open>
  A state whose first row is farther from the user at (30, 31.2) than its second row, a
  request with the radius 200, the list the loop keeps and the answer.
\<close>

definition far_salon :: salon where
  "far_salon =
     \<lparr>s_id = 1, s_city = ''Tanta'', s_country = ''Egypt'',
      s_latitude = Some (Num 31), s_longitude = Some (Num (312 / 10)), s_is_approved = True\<rparr>"

definition near_salon :: salon where
  "near_salon =
     \<lparr>s_id = 2, s_city = ''Cairo'', s_country = ''Egypt'',
      s_latitude = Some (Num 30), s_longitude = Some (Num (312 / 10)), s_is_approved = True\<rparr>"

definition ordering_db :: database where
  "ordering_db = \<lparr>db_salons = [far_salon, near_salon], db_barbers = []\<rparr>"

definition ordering_request :: pyvalue where
  "ordering_request =
     PDict [(''latitude'', PNum (Num 30)), (''longitude'', PNum (Num (312 / 10))),
            (''radius'', PNum (Num 200))]"

definition far_entry :: salon_distance where
  "far_entry =
     \<lparr>sd_salon = far_salon,
      sd_distance = py_round2 (Num (haversine_km 30 (312 / 10) 31 (312 / 10)))\<rparr>"

definition near_entry :: salon_distance where
  "near_entry = \<lparr>sd_salon = near_salon, sd_distance = Num 0\<rparr>"

definition ordering_result :: nearby_result where
  "ordering_result =
     \<lparr>nr_salons = [near_entry, far_entry], nr_total_count = 2,
      nr_search_radius = PNum (Num 200)\<rparr>"

section \<open>Properties of the distance function\<close>

text \<open>
  Over the reals the argument of the square root lies between 0 and 1 for all degrees, so
  neither \<^verbatim>\<open>math.sqrt\<close> nor \<^verbatim>\<open>math.asin\<close> leaves its domain on finite coordinates.
\<close>

lemma haversine_core_bounds:
  fixes p q d :: real
  shows "0 \<le> (sin ((q - p) / 2))\<^sup>2 + cos p * cos q * (sin d)\<^sup>2"
    and "(sin ((q - p) / 2))\<^sup>2 + cos p * cos q * (sin d)\<^sup>2 \<le> 1"
proof -
  define u where "u = (sin d)\<^sup>2"
  define C where "C = cos (q - p)"
  define S where "S = cos (p + q)"
  have u: "0 \<le> u" "u \<le> 1"
    by (simp_all add: u_def abs_square_le_1)
  have C: "- 1 \<le> C" "C \<le> 1" and S: "- 1 \<le> S" "S \<le> 1"
    by (simp_all add: C_def S_def)
  define x where "x = (q - p) / 2"
  have qp: "q - p = 2 * x" by (simp add: x_def)
  have h: "(sin ((q - p) / 2))\<^sup>2 = (1 - C) / 2"
    using cos_double_sin [of x] by (simp add: C_def qp)
  have "cos p * cos q = (cos (p - q) + cos (p + q)) / 2"
    by (rule cos_times_cos)
  moreover have "cos (p - q) = C"
    using cos_minus [of "q - p"] by (simp add: C_def)
  ultimately have cc: "cos p * cos q = (C + S) / 2"
    by (simp add: S_def)
  have a: "(sin ((q - p) / 2))\<^sup>2 + cos p * cos q * (sin d)\<^sup>2
           = (1 - C * (1 - u) + S * u) / 2"
    unfolding h cc u_def [symmetric] by (simp add: field_simps)
  have c1: "C * (1 - u) \<le> 1 * (1 - u)"
    using C u by (intro mult_right_mono) simp_all
  have c2: "- 1 * (1 - u) \<le> C * (1 - u)"
    using C u by (intro mult_right_mono) simp_all
  have s1: "S * u \<le> 1 * u"
    using S u by (intro mult_right_mono) simp_all
  have s2: "- 1 * u \<le> S * u"
    using S u by (intro mult_right_mono) simp_all
  show "0 \<le> (sin ((q - p) / 2))\<^sup>2 + cos p * cos q * (sin d)\<^sup>2"
    unfolding a using c1 s2 by simp
  show "(sin ((q - p) / 2))\<^sup>2 + cos p * cos q * (sin d)\<^sup>2 \<le> 1"
    unfolding a using c2 s1 by simp
qed

lemma haversine_a_bounds:
  "0 \<le> haversine_a lat1 lon1 lat2 lon2" "haversine_a lat1 lon1 lat2 lon2 \<le> 1"
  unfolding haversine_a_def
  using haversine_core_bounds [of "lat2 * pi / 180" "lat1 * pi / 180"
          "(lon2 * pi / 180 - lon1 * pi / 180) / 2"]
  by simp_all

lemma haversine_a_alt:
  "haversine_a lat1 lon1 lat2 lon2 =
     (sin ((pi * lat2 / 180 - pi * lat1 / 180) / 2))\<^sup>2
     + cos (pi * lat1 / 180) * cos (pi * lat2 / 180)
       * (sin ((pi * lon2 / 180 - pi * lon1 / 180) / 2))\<^sup>2"
  by (simp add: haversine_a_def mult.commute)

text \<open>
  On four finite, non-zero coordinates \<^verbatim>\<open>calculate_distance\<close> is the Haversine formula of
  the specification; with a coordinate that is \<^verbatim>\<open>None\<close> or zero it is the infinite sentinel.
\<close>

lemma calculate_distance_finite:
  assumes "lat1 \<noteq> 0" "lon1 \<noteq> 0" "lat2 \<noteq> 0" "lon2 \<noteq> 0"
  shows "calculate_distance (PNum (Num lat1)) (PNum (Num lon1)) (PNum (Num lat2)) (PNum (Num lon2))
         = Inr (Num (haversine_km lat1 lon1 lat2 lon2))"
proof -
  have s: "\<not> haversine_a lat1 lon1 lat2 lon2 < 0" "\<not> 1 < haversine_a lat1 lon1 lat2 lon2"
    using haversine_a_bounds [of lat1 lon1 lat2 lon2] by simp_all
  have "0 \<le> sqrt (haversine_a lat1 lon1 lat2 lon2)"
    using haversine_a_bounds(1) [of lat1 lon1 lat2 lon2] by simp
  then have q: "\<not> sqrt (haversine_a lat1 lon1 lat2 lon2) < - 1"
    by linarith
  show ?thesis
    using assms s q
    unfolding calculate_distance_def haversine_km_def
    by (simp add: Let_def haversine_a_alt [symmetric])
qed


lemma calculate_distance_falsy:
  "\<not> truthy lat1 \<or> \<not> truthy lon1 \<or> \<not> truthy lat2 \<or> \<not> truthy lon2 \<Longrightarrow>
     calculate_distance lat1 lon1 lat2 lon2 = Inr PosInf"
  by (auto simp: calculate_distance_def)

lemma calculate_distance_total_finite:
  "\<exists>d. calculate_distance (PNum (Num lat1)) (PNum (Num lon1)) (PNum (Num lat2)) (PNum (Num lon2))
         = Inr d"
proof (cases "lat1 \<noteq> 0 \<and> lon1 \<noteq> 0 \<and> lat2 \<noteq> 0 \<and> lon2 \<noteq> 0")
  case True
  then show ?thesis by (simp add: calculate_distance_finite)
next
  case False
  then have "calculate_distance (PNum (Num lat1)) (PNum (Num lon1)) (PNum (Num lat2)) (PNum (Num lon2))
         = Inr PosInf"
    by (intro calculate_distance_falsy) auto
  then show ?thesis by simp
qed

text \<open>
  On finite coordinates the distance is symmetric and not negative, and it is zero from a
  point to itself when neither coordinate of the point is zero.
\<close>

lemma sin_half_diff_sq: "(sin ((x - y) / 2))\<^sup>2 = (sin ((y - x) / 2))\<^sup>2" for x y :: real
proof -
  have "(y - x) / 2 = - ((x - y) / 2)" by argo
  then have "sin ((y - x) / 2) = - sin ((x - y) / 2)"
    by (simp only: sin_minus)
  then show ?thesis by (simp only: power2_minus)
qed

lemma haversine_a_sym: "haversine_a lat1 lon1 lat2 lon2 = haversine_a lat2 lon2 lat1 lon1"
  unfolding haversine_a_def
  using sin_half_diff_sq [of "lat2 * pi / 180" "lat1 * pi / 180"]
    sin_half_diff_sq [of "lon2 * pi / 180" "lon1 * pi / 180"]
  by (simp only: mult.commute [of "cos (lat1 * pi / 180)"])

lemma calculate_distance_sym_finite:
  "calculate_distance (PNum (Num lat1)) (PNum (Num lon1)) (PNum (Num lat2)) (PNum (Num lon2))
   = calculate_distance (PNum (Num lat2)) (PNum (Num lon2)) (PNum (Num lat1)) (PNum (Num lon1))"
proof (cases "lat1 \<noteq> 0 \<and> lon1 \<noteq> 0 \<and> lat2 \<noteq> 0 \<and> lon2 \<noteq> 0")
  case True
  then show ?thesis
    by (simp add: calculate_distance_finite haversine_km_def haversine_a_sym [of lat1 lon1 lat2 lon2])
next
  case False
  then have "calculate_distance (PNum (Num lat1)) (PNum (Num lon1)) (PNum (Num lat2)) (PNum (Num lon2))
         = Inr PosInf"
    "calculate_distance (PNum (Num lat2)) (PNum (Num lon2)) (PNum (Num lat1)) (PNum (Num lon1))
         = Inr PosInf"
    by (auto intro!: calculate_distance_falsy)
  then show ?thesis by simp
qed

lemma haversine_km_nonneg: "0 \<le> haversine_km lat1 lon1 lat2 lon2"
proof -
  have "0 \<le> sqrt (haversine_a lat1 lon1 lat2 lon2)" "sqrt (haversine_a lat1 lon1 lat2 lon2) \<le> 1"
    using haversine_a_bounds [of lat1 lon1 lat2 lon2] by simp_all
  then have "arcsin 0 \<le> arcsin (sqrt (haversine_a lat1 lon1 lat2 lon2))"
    by (intro arcsin_le_arcsin) simp_all
  then show ?thesis by (simp add: haversine_km_def)
qed

lemma calculate_distance_nonneg_finite:
  "calculate_distance (PNum (Num lat1)) (PNum (Num lon1)) (PNum (Num lat2)) (PNum (Num lon2)) = Inr d
   \<Longrightarrow> py_le (Num 0) d"
proof (cases "lat1 \<noteq> 0 \<and> lon1 \<noteq> 0 \<and> lat2 \<noteq> 0 \<and> lon2 \<noteq> 0")
  case True
  assume "calculate_distance (PNum (Num lat1)) (PNum (Num lon1)) (PNum (Num lat2)) (PNum (Num lon2)) = Inr d"
  with True show ?thesis
    by (auto simp: calculate_distance_finite haversine_km_nonneg)
next
  case False
  then have "calculate_distance (PNum (Num lat1)) (PNum (Num lon1)) (PNum (Num lat2)) (PNum (Num lon2))
         = Inr PosInf"
    by (intro calculate_distance_falsy) auto
  moreover assume "calculate_distance (PNum (Num lat1)) (PNum (Num lon1)) (PNum (Num lat2)) (PNum (Num lon2)) = Inr d"
  ultimately show ?thesis by auto
qed

lemma calculate_distance_same_point:
  "lat \<noteq> 0 \<Longrightarrow> lon \<noteq> 0 \<Longrightarrow>
     calculate_distance (PNum (Num lat)) (PNum (Num lon)) (PNum (Num lat)) (PNum (Num lon))
     = Inr (Num 0)"
  by (simp add: calculate_distance_finite haversine_km_def haversine_a_def)

text \<open>
  Claim C2. With all four coordinates present the result should be the Haversine distance.
  A point on the equator has latitude 0, which the truthiness guard takes for a missing
  coordinate: from (0, 31.2) to (30, 31.2) the function returns the infinite sentinel and
  not the Haversine distance of the two points.
\<close>

theorem calculate_distance_equator_point:
  "calculate_distance (PNum (Num 0)) (PNum (Num (312 / 10))) (PNum (Num 30)) (PNum (Num (312 / 10)))
     = Inr PosInf
   \<and> Inr (Num (haversine_km 0 (312 / 10) 30 (312 / 10))) \<noteq> (Inr PosInf :: error + pyfloat)"
  by (simp add: calculate_distance_def)

text \<open>
  Claim C6. The distance from a point to itself should be 0. For the point (0, 10) on the
  equator the function returns the infinite sentinel, by the same truthiness guard.
\<close>

theorem calculate_distance_equator_self:
  "calculate_distance (PNum (Num 0)) (PNum (Num 10)) (PNum (Num 0)) (PNum (Num 10)) = Inr PosInf
   \<and> Inr (Num 0) \<noteq> (Inr PosInf :: error + pyfloat)"
  by (simp add: calculate_distance_def)

section \<open>Properties of the location guard and of the listing and lookup routes\<close>

text \<open>
  Claim C9, amended. A nearby search whose body is a JSON object in which the latitude or
  the longitude is absent or falsy answers with the client error 400, whatever the
  persistence state holds: no salon is queried or filtered.
\<close>

theorem nearby_missing_location:
  assumes "\<not> truthy (dict_get kvs ''latitude'' PNone)
           \<or> \<not> truthy (dict_get kvs ''longitude'' PNone)"
  shows "get_nearby_salons (Some (PDict kvs)) db = BadRequest
         \<and> status_code (get_nearby_salons (Some (PDict kvs)) db) = 400"
  using assms by (auto simp: get_nearby_salons_def)

theorem nearby_missing_location_witness:
  "get_nearby_salons (Some (PDict [(''longitude'', PNum (Num 31))])) demo_db = BadRequest
   \<and> get_nearby_salons
         (Some (PDict [(''latitude'', PNum (Num 30)), (''longitude'', PNum (Num 0))])) demo_db
       = BadRequest"
  using nearby_missing_location [of "[(''longitude'', PNum (Num 31))]" demo_db]
        nearby_missing_location
          [of "[(''latitude'', PNum (Num 30)), (''longitude'', PNum (Num 0))]" demo_db]
  by (simp add: dict_get_def)

text \<open>
  Claim C9 as stated, for every request without a latitude, fails: when the body is the
  JSON value \<^verbatim>\<open>null\<close>, \<^verbatim>\<open>data.get\<close> raises inside the route and the answer is 500; so it is
  when the request has no JSON body at all.
\<close>

theorem nearby_body_not_an_object:
  "get_nearby_salons (Some PNone) demo_db = InternalError AttributeError
   \<and> status_code (get_nearby_salons (Some PNone) demo_db) = 500
   \<and> get_nearby_salons (Some PNone) demo_db \<noteq> BadRequest
   \<and> get_nearby_salons None demo_db = InternalError HTTPException"
  by (simp add: get_nearby_salons_def)

text \<open>
  Claim C10. Without a city and without a country, \<^verbatim>\<open>get_salons_by_city\<close> returns the
  salons of \<^verbatim>\<open>get_all_salons\<close>: the same list, in the same order, with the same barbers and
  the same count; its response has the echoed filters in addition.
\<close>

theorem by_city_without_filters_is_all:
  "\<exists>r1 r2. get_salons_by_city None None db = Success r1 \<and> get_all_salons db = Success r2
     \<and> bc_salons r1 = al_salons r2 \<and> bc_total_count r1 = al_total_count r2
     \<and> bc_filters r1 = (None, None)"
  by (simp add: get_salons_by_city_def get_all_salons_def Let_def)

lemma find_distinct_id:
  "distinct (map s_id xs) \<Longrightarrow> s \<in> set xs \<Longrightarrow> find (\<lambda>x. s_id x = s_id s) xs = Some s"
  by (induction xs) (auto simp: rev_image_eqI)

lemma find_no_id: "\<forall>s \<in> set xs. s_id s \<noteq> i \<Longrightarrow> find (\<lambda>x. s_id x = i) xs = None"
  by (induction xs) auto

text \<open>
  Claim C5, amended. With the salon ids distinct (the id is the primary key) and an id
  below \<open>2 ^ 63\<close>, \<^verbatim>\<open>get_salon_details\<close> answers NotFound when no salon has the id,
  Forbidden when the salon with the id is not approved, and otherwise succeeds with the
  salon's view and the summaries (id, name, specialty) of the barbers of that salon.
\<close>

theorem get_salon_details_outcomes:
  assumes "distinct (map s_id (db_salons db))" and "i < 2 ^ 63"
  shows "((\<forall>s \<in> set (db_salons db). s_id s \<noteq> int i) \<longrightarrow> get_salon_details i db = NotFound)
       \<and> (\<forall>s \<in> set (db_salons db). s_id s = int i \<and> \<not> s_is_approved s \<longrightarrow>
             get_salon_details i db = Forbidden)
       \<and> (\<forall>s \<in> set (db_salons db). s_id s = int i \<and> s_is_approved s \<longrightarrow>
             get_salon_details i db =
               Success \<lparr>sb_salon = s,
                        sb_barbers =
                          map (\<lambda>b. \<lparr>bs_id = b_id b, bs_name = b_name b, bs_specialty = b_specialty b\<rparr>)
                            (filter (\<lambda>b. b_salon_id b = int i) (db_barbers db))\<rparr>)"
proof (intro conjI impI ballI)
  from assms(2) have q: "query_get db i = Inr (find (\<lambda>s. s_id s = int i) (db_salons db))"
    by (simp add: query_get_def)
  {
    assume "\<forall>s \<in> set (db_salons db). s_id s \<noteq> int i"
    then show "get_salon_details i db = NotFound"
      by (simp add: get_salon_details_def q find_no_id)
  next
    fix s assume s: "s \<in> set (db_salons db)" and h: "s_id s = int i \<and> \<not> s_is_approved s"
    from find_distinct_id [OF assms(1) s] h have "query_get db i = Inr (Some s)"
      by (simp add: q)
    with h show "get_salon_details i db = Forbidden"
      by (simp add: get_salon_details_def)
  next
    fix s assume s: "s \<in> set (db_salons db)" and h: "s_id s = int i \<and> s_is_approved s"
    from find_distinct_id [OF assms(1) s] h have "query_get db i = Inr (Some s)"
      by (simp add: q)
    with h show "get_salon_details i db =
               Success \<lparr>sb_salon = s,
                        sb_barbers =
                          map (\<lambda>b. \<lparr>bs_id = b_id b, bs_name = b_name b, bs_specialty = b_specialty b\<rparr>)
                            (filter (\<lambda>b. b_salon_id b = int i) (db_barbers db))\<rparr>"
      by (simp add: get_salon_details_def barbers_of_def to_dict_def)
  }
qed

theorem get_salon_details_outcomes_witness:
  "get_salon_details 7 demo_db = NotFound
   \<and> get_salon_details 4 demo_db = Forbidden
   \<and> get_salon_details 1 demo_db =
       Success \<lparr>sb_salon = \<lparr>s_id = 1, s_city = ''Cairo'', s_country = ''Egypt'',
                   s_latitude = Some (Num 30), s_longitude = Some (Num (312 / 10)),
                   s_is_approved = True\<rparr>,
                sb_barbers = [\<lparr>bs_id = 10, bs_name = ''Omar'', bs_specialty = ''Fade''\<rparr>,
                              \<lparr>bs_id = 12, bs_name = ''Sami'', bs_specialty = ''Classic''\<rparr>]\<rparr>"
  using get_salon_details_outcomes [of demo_db 7] get_salon_details_outcomes [of demo_db 4]
        get_salon_details_outcomes [of demo_db 1]
  by (simp add: demo_db_def)

text \<open>
  Claim C5 as stated, for every id, fails: the id \<open>2 ^ 63\<close> belongs to no salon, the
  lookup raises \<^verbatim>\<open>OverflowError\<close> and the route answers 500, not NotFound.
\<close>

theorem get_salon_details_huge_id:
  "get_salon_details (2 ^ 63) demo_db = InternalError OverflowError
   \<and> status_code (get_salon_details (2 ^ 63) demo_db) = 500
   \<and> get_salon_details (2 ^ 63) demo_db \<noteq> NotFound
   \<and> int (2 ^ 63) \<notin> s_id ` set (db_salons demo_db)"
  by (simp add: get_salon_details_def query_get_def demo_db_def)

section \<open>Properties of the location filter\<close>

lemma like_match_percent: "like_match ''%'' s"
  by (induction s) auto

lemma like_match_prefix:
  "\<forall>p \<in> set ps. \<not> wildcard p \<Longrightarrow> like_match (ps @ ''%'') s \<longleftrightarrow> prefix ps s"
proof (induction ps arbitrary: s)
  case Nil
  then show ?case by (simp add: like_match_percent)
next
  case (Cons p ps)
  then show ?case by (cases s) (auto simp: wildcard_def)
qed

lemma like_match_any_run:
  "like_match (CHR ''%'' # qs) s \<longleftrightarrow> (\<exists>t. suffix t s \<and> like_match qs t)"
proof (induction s)
  case Nil
  then show ?case by (cases qs) auto
next
  case (Cons c cs)
  then show ?case by (auto simp: suffix_Cons)
qed

lemma like_match_contains:
  assumes "\<forall>p \<in> set ps. \<not> wildcard p"
  shows "like_match (''%'' @ ps @ ''%'') s \<longleftrightarrow> sublist ps s"
proof -
  have "like_match (''%'' @ ps @ ''%'') s \<longleftrightarrow> (\<exists>t. suffix t s \<and> prefix ps t)"
    using like_match_any_run [of "ps @ ''%''" s] like_match_prefix [OF assms] by simp
  then show ?thesis by (simp add: sublist_altdef')
qed

lemma ascii_lower_wildcard: "wildcard (ascii_lower c) \<longleftrightarrow> wildcard c"
proof (cases "65 \<le> (of_char c :: nat) \<and> (of_char c :: nat) \<le> 90")
  case False
  then show ?thesis by (auto simp: ascii_lower_def Let_def)
next
  case True
  let ?n = "of_char c :: nat"
  have "of_char (char_of (?n + 32)) = (?n + 32) mod 256"
    by (rule of_char_of)
  with True have v: "(of_char (char_of (?n + 32)) :: nat) = ?n + 32" by simp
  have p: "(of_char (CHR ''%'') :: nat) = 37" and u: "(of_char (CHR ''_'') :: nat) = 95"
    by simp_all
  have "char_of (?n + 32) \<noteq> CHR ''%''"
  proof
    assume "char_of (?n + 32) = CHR ''%''"
    with v p have "?n + 32 = 37" by simp
    with True show False by simp
  qed
  moreover have "char_of (?n + 32) \<noteq> CHR ''_''"
  proof
    assume "char_of (?n + 32) = CHR ''_''"
    with v u have "?n + 32 = 95" by simp
    with True show False by simp
  qed
  moreover have "c \<noteq> CHR ''%''" "c \<noteq> CHR ''_''"
    using True p u by auto
  ultimately show ?thesis using True by (simp add: ascii_lower_def Let_def wildcard_def)
qed

lemma sql_lower_pattern: "sql_lower (''%'' @ c @ ''%'') = ''%'' @ sql_lower c @ ''%''"
  by (simp add: sql_lower_def ascii_lower_def)

lemma ilike_contains:
  assumes "\<forall>p \<in> set c. \<not> wildcard p"
  shows "ilike column (''%'' @ c @ ''%'') \<longleftrightarrow> spec_contains_ci c column"
proof -
  from assms have "\<forall>p \<in> set (sql_lower c). \<not> wildcard p"
    by (simp add: sql_lower_def ascii_lower_wildcard)
  from like_match_contains [OF this] show ?thesis
    unfolding ilike_def spec_contains_ci_def sql_lower_pattern .
qed


text \<open>The example of the specification: the city filter \<^verbatim>\<open>Cairo\<close>.\<close>

lemma ilike_cairo_examples:
  "ilike ''Cairo'' (''%'' @ ''Cairo'' @ ''%'')"
  "ilike ''New Cairo'' (''%'' @ ''Cairo'' @ ''%'')"
  "ilike ''CAIRO'' (''%'' @ ''Cairo'' @ ''%'')"
  "\<not> ilike ''Giza'' (''%'' @ ''Cairo'' @ ''%'')"
  by code_simp+

text \<open>
  For filter strings without \<^verbatim>\<open>%\<close> and \<^verbatim>\<open>_\<close> the route keeps exactly the salons of the
  specification's filter, in the order of the persistence layer.
\<close>

lemma by_city_matches_spec:
  assumes "\<forall>c. city = Some c \<longrightarrow> (\<forall>p \<in> set c. \<not> wildcard p)"
    and "\<forall>c. country = Some c \<longrightarrow> (\<forall>p \<in> set c. \<not> wildcard p)"
  shows "\<exists>r. get_salons_by_city city country db = Success r
           \<and> map sb_salon (bc_salons r) = spec_find_by_location city country db"
proof -
  have e: "spec_contains_ci [] column" for column
    by (simp add: spec_contains_ci_def sql_lower_def)
  have m: "map (sb_salon \<circ> (\<lambda>salon. \<lparr>sb_salon = to_dict salon, sb_barbers = f salon\<rparr>)) xs = xs"
    for f :: "salon \<Rightarrow> barber_summary list" and xs
    by (induction xs) (simp_all add: to_dict_def)
  have i: "ilike column (CHR ''%'' # c @ ''%'') \<longleftrightarrow> spec_contains_ci c column"
    if "\<forall>p \<in> set c. \<not> wildcard p" for c column
    using ilike_contains [OF that, of column] by simp
  show ?thesis
    using assms
    by (cases city; cases country)
      (auto simp: get_salons_by_city_def spec_find_by_location_def approved_salons_def Let_def
        i e m intro!: filter_cong)
qed

text \<open>
  Claim C8. The route should keep exactly the approved salons whose city contains the given
  string. The string is pasted into the \<^verbatim>\<open>LIKE\<close> pattern unescaped, so its \<^verbatim>\<open>_\<close> matches
  any character: for the city filter \<^verbatim>\<open>C_iro\<close> the route returns the salons 1 and 2 of the
  sample state (Cairo, New Cairo), although no city contains that string.
\<close>

theorem by_city_wildcard_pattern:
  "\<exists>r. get_salons_by_city (Some ''C_iro'') None demo_db = Success r
     \<and> map s_id (map sb_salon (bc_salons r)) = [1, 2]
     \<and> spec_find_by_location (Some ''C_iro'') None demo_db = []"
proof -
  have a: "ilike ''Cairo'' (''%'' @ ''C_iro'' @ ''%'')" "ilike ''New Cairo'' (''%'' @ ''C_iro'' @ ''%'')"
    "\<not> ilike ''Giza'' (''%'' @ ''C_iro'' @ ''%'')"
    by code_simp+
  have b: "\<not> spec_contains_ci ''C_iro'' ''Cairo''" "\<not> spec_contains_ci ''C_iro'' ''New Cairo''"
    "\<not> spec_contains_ci ''C_iro'' ''Giza''" "\<not> spec_contains_ci ''C_iro'' ''CAIRO''"
    unfolding spec_contains_ci_def by code_simp+
  show ?thesis
    using a b
    by (simp add: get_salons_by_city_def spec_find_by_location_def approved_salons_def demo_db_def
        to_dict_def Let_def)
qed

section \<open>Properties of the nearby search\<close>

lemma py_lt_irrefl: "\<not> py_lt a a"
  by (cases a) auto

lemma py_lt_imp_le: "py_lt a b \<Longrightarrow> py_le a b"
  by (cases a; cases b) auto

lemma py_le_total: "a \<noteq> NaN \<Longrightarrow> b \<noteq> NaN \<Longrightarrow> \<not> py_lt b a \<Longrightarrow> py_le a b"
  by (cases a; cases b) auto

lemma py_le_trans: "py_le a b \<Longrightarrow> py_le b c \<Longrightarrow> py_le a c"
  by (cases a; cases b; cases c) auto

lemma py_le_not_NaN: "py_le a b \<Longrightarrow> a \<noteq> NaN \<and> b \<noteq> NaN"
  by (cases a; cases b) auto

lemma py_round2_NaN: "py_round2 d = NaN \<longleftrightarrow> d = NaN"
  by (cases d) auto

lemma set_insort_by: "set (insort_by key x xs) = insert x (set xs)"
  by (induction xs) auto

lemma set_sort_by: "set (sort_by key xs) = set xs"
  by (induction xs) (auto simp: set_insort_by)

lemma length_insort_by: "length (insort_by key x xs) = Suc (length xs)"
  by (induction xs) auto

lemma length_sort_by: "length (sort_by key xs) = length xs"
  by (induction xs) (auto simp: length_insort_by)

lemma sorted_insort_by:
  assumes "sorted_wrt (\<lambda>a b. py_le (key a) (key b)) xs"
    and "key x \<noteq> NaN" and "\<forall>y \<in> set xs. key y \<noteq> NaN"
  shows "sorted_wrt (\<lambda>a b. py_le (key a) (key b)) (insort_by key x xs)"
  using assms
proof (induction xs)
  case Nil
  then show ?case by simp
next
  case (Cons y ys)
  show ?case
  proof (cases "py_lt (key y) (key x)")
    case True
    with Cons show ?thesis
      by (auto simp: set_insort_by py_lt_imp_le)
  next
    case False
    with Cons.prems have "py_le (key x) (key y)"
      by (simp add: py_le_total)
    with False Cons.prems show ?thesis
      by (auto intro: py_le_trans)
  qed
qed

lemma sorted_sort_by:
  "\<forall>y \<in> set xs. key y \<noteq> NaN \<Longrightarrow> sorted_wrt (\<lambda>a b. py_le (key a) (key b)) (sort_by key xs)"
  by (induction xs) (auto simp: sorted_insort_by set_sort_by)

lemma filter_insort_by:
  "filter (\<lambda>z. key z = k) (insort_by key x xs) = filter (\<lambda>z. key z = k) (x # xs)"
  by (induction xs) (auto simp: py_lt_irrefl)

lemma filter_sort_by:
  "filter (\<lambda>z. key z = k) (sort_by key xs) = filter (\<lambda>z. key z = k) xs"
  by (induction xs) (auto simp: filter_insort_by)

lemma mset_insort_by: "mset (insort_by key x xs) = add_mset x (mset xs)"
  by (induction xs) auto

lemma mset_sort_by: "mset (sort_by key xs) = mset xs"
  by (induction xs) (auto simp: mset_insort_by)

lemma py_le_value_not_NaN: "py_le_value d r = Inr True \<Longrightarrow> d \<noteq> NaN"
  by (cases r) (auto dest: py_le_not_NaN)

lemma nearby_loop_append:
  "nearby_loop la lo r ss acc = Inr res \<Longrightarrow>
     \<exists>new. res = acc @ new \<and> subseq (map sd_salon new) ss
       \<and> (\<forall>x \<in> set new.
             truthy (column_value (s_latitude (sd_salon x)))
             \<and> truthy (column_value (s_longitude (sd_salon x)))
             \<and> (\<exists>d. calculate_distance la lo (column_value (s_latitude (sd_salon x)))
                        (column_value (s_longitude (sd_salon x))) = Inr d
                  \<and> py_le_value d r = Inr True \<and> sd_distance x = py_round2 d))"
proof (induction ss arbitrary: acc)
  case Nil
  then show ?case by simp
next
  case (Cons s ss)
  let ?lat = "column_value (s_latitude s)" and ?lon = "column_value (s_longitude s)"
  show ?case
  proof (cases "truthy ?lat \<and> truthy ?lon")
    case False
    with Cons.prems have "nearby_loop la lo r ss acc = Inr res" by auto
    from Cons.IH [OF this] show ?thesis by (auto intro: subseq_Cons')
  next
    case True
    with Cons.prems obtain d where d: "calculate_distance la lo ?lat ?lon = Inr d"
      by (auto split: sum.splits)
    with True Cons.prems obtain near where near: "py_le_value d r = Inr near"
      by (auto split: sum.splits)
    show ?thesis
    proof (cases near)
      case False
      with True d near Cons.prems have "nearby_loop la lo r ss acc = Inr res" by auto
      from Cons.IH [OF this] show ?thesis by (auto intro: subseq_Cons')
    next
      case le: True
      let ?e = "\<lparr>sd_salon = to_dict s, sd_distance = py_round2 d\<rparr>"
      from True d near le Cons.prems have "nearby_loop la lo r ss (acc @ [?e]) = Inr res" by auto
      from Cons.IH [OF this] obtain new where new: "res = (acc @ [?e]) @ new"
        "subseq (map sd_salon new) ss"
        "\<forall>x \<in> set new.
             truthy (column_value (s_latitude (sd_salon x)))
             \<and> truthy (column_value (s_longitude (sd_salon x)))
             \<and> (\<exists>d. calculate_distance la lo (column_value (s_latitude (sd_salon x)))
                        (column_value (s_longitude (sd_salon x))) = Inr d
                  \<and> py_le_value d r = Inr True \<and> sd_distance x = py_round2 d)"
        by blast
      show ?thesis
      proof (intro exI [of _ "?e # new"] conjI)
        show "res = acc @ ?e # new" using new(1) by simp
        show "subseq (map sd_salon (?e # new)) (s # ss)"
          using new(2) by (simp add: to_dict_def)
        show "\<forall>x \<in> set (?e # new).
             truthy (column_value (s_latitude (sd_salon x)))
             \<and> truthy (column_value (s_longitude (sd_salon x)))
             \<and> (\<exists>d. calculate_distance la lo (column_value (s_latitude (sd_salon x)))
                        (column_value (s_longitude (sd_salon x))) = Inr d
                  \<and> py_le_value d r = Inr True \<and> sd_distance x = py_round2 d)"
          using new(3) True d near le by (simp add: to_dict_def)
      qed
    qed
  qed
qed

lemma nearby_success:
  assumes "get_nearby_salons body db = Success r"
  shows "\<exists>data user_lat user_lon kept.
           body = Some data
           \<and> py_get data ''latitude'' PNone = Inr user_lat
           \<and> py_get data ''longitude'' PNone = Inr user_lon
           \<and> py_get data ''radius'' (PNum (Num 50)) = Inr (nr_search_radius r)
           \<and> nearby_loop user_lat user_lon (nr_search_radius r) (approved_salons db) [] = Inr kept
           \<and> nr_salons r = sort_by sd_distance kept"
  using assms
  by (auto simp: get_nearby_salons_def Let_def split: option.splits sum.splits if_splits)

lemma truthy_present: "truthy (column_value v) \<Longrightarrow> v \<noteq> None"
  by (cases v) auto

text \<open>
  Claim C4. Every salon of a successful nearby search is a row of the persistence state
  that is approved and has both its latitude and its longitude present.
\<close>

theorem nearby_results_eligible:
  assumes "get_nearby_salons data db = Success r"
  shows "\<forall>x \<in> set (nr_salons r).
           sd_salon x \<in> set (db_salons db) \<and> s_is_approved (sd_salon x)
           \<and> s_latitude (sd_salon x) \<noteq> None \<and> s_longitude (sd_salon x) \<noteq> None"
proof
  fix x assume x: "x \<in> set (nr_salons r)"
  from nearby_success [OF assms] obtain user_lat user_lon kept where
    loop: "nearby_loop user_lat user_lon (nr_search_radius r) (approved_salons db) [] = Inr kept"
    and sorted: "nr_salons r = sort_by sd_distance kept"
    by blast
  from nearby_loop_append [OF loop] have kept:
    "subseq (map sd_salon kept) (approved_salons db)"
    "\<forall>x \<in> set kept. truthy (column_value (s_latitude (sd_salon x)))
        \<and> truthy (column_value (s_longitude (sd_salon x)))"
    by auto
  from x sorted have xn: "x \<in> set kept" by (simp add: set_sort_by)
  then have "sd_salon x \<in> set (map sd_salon kept)" by simp
  with kept(1) obtain y where "y \<in> set (approved_salons db)" "sd_salon x = y"
    by (rule list_emb_set)
  then have "sd_salon x \<in> set (approved_salons db)" by simp
  then have "sd_salon x \<in> set (db_salons db) \<and> s_is_approved (sd_salon x)"
    by (simp add: approved_salons_def)
  with xn kept(2) show "sd_salon x \<in> set (db_salons db) \<and> s_is_approved (sd_salon x)
           \<and> s_latitude (sd_salon x) \<noteq> None \<and> s_longitude (sd_salon x) \<noteq> None"
    by (simp add: truthy_present)
qed

lemma demo_nearby: "get_nearby_salons (Some demo_request) demo_db = Success demo_nearby_result"
  by (simp add: get_nearby_salons_def demo_db_def approved_salons_def calculate_distance_def
      to_dict_def round_half_even_def demo_request_def demo_nearby_result_def dict_get_def Let_def)

theorem nearby_results_eligible_witness:
  "get_nearby_salons (Some demo_request) demo_db = Success demo_nearby_result
   \<and> sd_salon (nr_salons demo_nearby_result ! 1) \<in> set (db_salons demo_db)
   \<and> s_is_approved (sd_salon (nr_salons demo_nearby_result ! 1))
   \<and> s_latitude (sd_salon (nr_salons demo_nearby_result ! 1)) \<noteq> None
   \<and> s_longitude (sd_salon (nr_salons demo_nearby_result ! 1)) \<noteq> None"
proof -
  have "nr_salons demo_nearby_result ! 1 \<in> set (nr_salons demo_nearby_result)"
    by (simp add: demo_nearby_result_def)
  with nearby_results_eligible [OF demo_nearby] demo_nearby show ?thesis
    by blast
qed

text \<open>
  The great-circle distance of two points on one meridian, and the sample request of the
  ordering example: the first row is about 111 km from the user, the second one 0 km.
\<close>

lemma haversine_km_same_longitude:
  assumes "lat1 \<le> lat2" "lat2 - lat1 \<le> 180"
  shows "haversine_km lat1 lon lat2 lon = 6371 * ((lat2 - lat1) * pi / 180)"
proof -
  define x where "x = (lat2 - lat1) * pi / 360"
  have "(lat2 - lat1) * pi \<le> 180 * pi"
    using assms(2) by (intro mult_right_mono) simp_all
  moreover have "0 \<le> (lat2 - lat1) * pi"
    using assms(1) by simp
  ultimately have x0: "0 \<le> x" "x \<le> pi / 2"
    by (simp_all add: x_def)
  then have x: "0 \<le> x" "x \<le> pi / 2" "- (pi / 2) \<le> x" "x \<le> pi"
    using pi_ge_zero by linarith+
  have "(lat2 * pi / 180 - lat1 * pi / 180) / 2 = x"
    by (simp add: x_def field_simps)
  then have a: "haversine_a lat1 lon lat2 lon = (sin x)\<^sup>2"
    by (simp add: haversine_a_def)
  have "0 \<le> sin x"
    using x by (intro sin_ge_zero)
  then have s: "sqrt (haversine_a lat1 lon lat2 lon) = sin x"
    by (simp add: a)
  have r: "arcsin (sin x) = x"
    using x by (intro arcsin_sin)
  have "haversine_km lat1 lon lat2 lon = 2 * x * 6371"
    by (simp only: haversine_km_def s r)
  also have "\<dots> = 6371 * ((lat2 - lat1) * pi / 180)"
    by (simp add: x_def)
  finally show ?thesis .
qed

lemma far_distance_bounds:
  "70 \<le> haversine_km 30 (312 / 10) 31 (312 / 10)" "haversine_km 30 (312 / 10) 31 (312 / 10) \<le> 142"
proof -
  have e: "haversine_km 30 (312 / 10) 31 (312 / 10) = 6371 * ((31 - 30) * pi / 180)"
    by (intro haversine_km_same_longitude) simp_all
  show "70 \<le> haversine_km 30 (312 / 10) 31 (312 / 10)"
    unfolding e using pi_ge_two by simp
  show "haversine_km 30 (312 / 10) 31 (312 / 10) \<le> 142"
    unfolding e using pi_less_4 by simp
qed

lemma round_half_even_ge_floor: "\<lfloor>y\<rfloor> \<le> round_half_even y"
  by (simp add: round_half_even_def Let_def)

lemma far_entry_key: "\<exists>k. sd_distance far_entry = Num k \<and> 0 < k"
proof -
  let ?h = "haversine_km 30 (312 / 10) 31 (312 / 10)"
  have "1 \<le> ?h * 100" using far_distance_bounds(1) by simp
  then have "1 \<le> \<lfloor>?h * 100\<rfloor>" by (simp add: le_floor_iff)
  with round_half_even_ge_floor [of "?h * 100"] have "1 \<le> round_half_even (?h * 100)"
    by linarith
  then have "0 < (of_int (round_half_even (?h * 100)) :: real) / 100" by simp
  then show ?thesis
    by (intro exI [of _ "of_int (round_half_even (?h * 100)) / 100"]) (simp add: far_entry_def)
qed

lemma py_round2_zero: "py_round2 (Num 0) = Num 0"
  by (simp add: round_half_even_def)

lemma ordering_loop:
  "nearby_loop (PNum (Num 30)) (PNum (Num (312 / 10))) (PNum (Num 200))
     (approved_salons ordering_db) [] = Inr [far_entry, near_entry]"
proof -
  let ?h = "haversine_km 30 (312 / 10) 31 (312 / 10)"
  have rows: "approved_salons ordering_db = [far_salon, near_salon]"
    by (simp add: approved_salons_def ordering_db_def far_salon_def near_salon_def)
  have t: "truthy (column_value (s_latitude far_salon))"
    "truthy (column_value (s_longitude far_salon))"
    "truthy (column_value (s_latitude near_salon))"
    "truthy (column_value (s_longitude near_salon))"
    by (simp_all add: far_salon_def near_salon_def)
  have far: "calculate_distance (PNum (Num 30)) (PNum (Num (312 / 10)))
               (column_value (s_latitude far_salon)) (column_value (s_longitude far_salon))
             = Inr (Num ?h)"
    by (simp add: far_salon_def calculate_distance_finite)
  have near: "calculate_distance (PNum (Num 30)) (PNum (Num (312 / 10)))
               (column_value (s_latitude near_salon)) (column_value (s_longitude near_salon))
             = Inr (Num 0)"
    by (simp add: near_salon_def calculate_distance_same_point)
  have le: "py_le_value (Num ?h) (PNum (Num 200)) = Inr True"
    "py_le_value (Num 0) (PNum (Num 200)) = Inr True"
    using far_distance_bounds(2) by simp_all
  show ?thesis
    by (simp only: rows nearby_loop.simps t far near le py_round2_zero sum.case if_True
        simp_thms append_Nil append_Cons far_entry_def near_entry_def to_dict_def)
qed

lemma ordering_sort: "sort_by sd_distance [far_entry, near_entry] = [near_entry, far_entry]"
proof -
  from far_entry_key obtain k where "sd_distance far_entry = Num k" "0 < k" by blast
  then show ?thesis by (simp add: near_entry_def)
qed

lemma demo_ordering:
  "get_nearby_salons (Some ordering_request) ordering_db = Success ordering_result"
proof -
  have get: "py_get ordering_request ''latitude'' PNone = Inr (PNum (Num 30))"
    "py_get ordering_request ''longitude'' PNone = Inr (PNum (Num (312 / 10)))"
    "py_get ordering_request ''radius'' (PNum (Num 50)) = Inr (PNum (Num 200))"
    by (simp_all add: ordering_request_def dict_get_def)
  have t: "truthy (PNum (Num 30))" "truthy (PNum (Num (312 / 10)))"
    by simp_all
  have len: "length [near_entry, far_entry] = 2"
    by simp
  show ?thesis
    by (simp only: get_nearby_salons_def option.case get sum.case t simp_thms if_False
        ordering_loop ordering_sort Let_def len ordering_result_def)
qed

text \<open>
  Claim C3. The list of a successful nearby search is the list the loop keeps, rearranged
  (the same entries, each as often): it is ascending in the attached distance, each entry's
  distance at most the next entry's, and the sort is stable, the entries of one distance
  standing in the order in which the loop kept them, which is the order of the persistence
  layer.
\<close>

theorem nearby_sorted_stable:
  assumes "get_nearby_salons body db = Success r"
  shows "\<exists>data user_lat user_lon kept.
           body = Some data
           \<and> py_get data ''latitude'' PNone = Inr user_lat
           \<and> py_get data ''longitude'' PNone = Inr user_lon
           \<and> nearby_loop user_lat user_lon (nr_search_radius r) (approved_salons db) [] = Inr kept
           \<and> subseq (map sd_salon kept) (db_salons db)
           \<and> mset (nr_salons r) = mset kept
           \<and> (\<forall>i. Suc i < length (nr_salons r) \<longrightarrow>
                 py_le (sd_distance (nr_salons r ! i)) (sd_distance (nr_salons r ! Suc i)))
           \<and> (\<forall>k. filter (\<lambda>x. sd_distance x = k) (nr_salons r)
                    = filter (\<lambda>x. sd_distance x = k) kept)"
proof -
  from nearby_success [OF assms] obtain data user_lat user_lon kept where
    body: "body = Some data" "py_get data ''latitude'' PNone = Inr user_lat"
      "py_get data ''longitude'' PNone = Inr user_lon"
    and loop: "nearby_loop user_lat user_lon (nr_search_radius r) (approved_salons db) [] = Inr kept"
    and sorted: "nr_salons r = sort_by sd_distance kept"
    by blast
  from nearby_loop_append [OF loop] have sub: "subseq (map sd_salon kept) (approved_salons db)"
    and "\<forall>x \<in> set kept. \<exists>d. py_le_value d (nr_search_radius r) = Inr True
            \<and> sd_distance x = py_round2 d"
    by auto
  then have keys: "\<forall>x \<in> set kept. sd_distance x \<noteq> NaN"
    using py_le_value_not_NaN py_round2_NaN by metis
  have "subseq (approved_salons db) (db_salons db)"
    by (simp add: approved_salons_def)
  with sub have order: "subseq (map sd_salon kept) (db_salons db)"
    by (rule subseq_order.trans)
  from keys have "sorted_wrt (\<lambda>a b. py_le (sd_distance a) (sd_distance b)) (nr_salons r)"
    unfolding sorted by (intro sorted_sort_by) simp
  then have adj: "\<forall>i. Suc i < length (nr_salons r) \<longrightarrow>
            py_le (sd_distance (nr_salons r ! i)) (sd_distance (nr_salons r ! Suc i))"
    by (auto intro: sorted_wrt_nth_less)
  have perm: "mset (nr_salons r) = mset kept"
    unfolding sorted by (rule mset_sort_by)
  have stable: "\<forall>k. filter (\<lambda>x. sd_distance x = k) (nr_salons r)
                    = filter (\<lambda>x. sd_distance x = k) kept"
    unfolding sorted by (simp add: filter_sort_by)
  from body loop order perm adj stable show ?thesis by blast
qed

theorem nearby_sorted_stable_witness:
  "get_nearby_salons (Some ordering_request) ordering_db = Success ordering_result
   \<and> nearby_loop (PNum (Num 30)) (PNum (Num (312 / 10))) (nr_search_radius ordering_result)
        (approved_salons ordering_db) [] = Inr [far_entry, near_entry]
   \<and> map sd_salon [far_entry, near_entry] = db_salons ordering_db
   \<and> nr_salons ordering_result = [near_entry, far_entry]
   \<and> mset (nr_salons ordering_result) = mset [far_entry, near_entry]
   \<and> py_le (sd_distance (nr_salons ordering_result ! 0))
        (sd_distance (nr_salons ordering_result ! 1))
   \<and> filter (\<lambda>x. sd_distance x = Num 0) (nr_salons ordering_result)
       = filter (\<lambda>x. sd_distance x = Num 0) [far_entry, near_entry]"
proof -
  have get: "py_get ordering_request ''latitude'' PNone = Inr (PNum (Num 30))"
    "py_get ordering_request ''longitude'' PNone = Inr (PNum (Num (312 / 10)))"
    by (simp_all add: ordering_request_def dict_get_def)
  have radius: "nr_search_radius ordering_result = PNum (Num 200)"
    by (simp add: ordering_result_def)
  from nearby_sorted_stable [OF demo_ordering] get
  obtain kept where kept:
    "nearby_loop (PNum (Num 30)) (PNum (Num (312 / 10))) (nr_search_radius ordering_result)
       (approved_salons ordering_db) [] = Inr kept"
    "mset (nr_salons ordering_result) = mset kept"
    "\<forall>i. Suc i < length (nr_salons ordering_result) \<longrightarrow>
        py_le (sd_distance (nr_salons ordering_result ! i))
          (sd_distance (nr_salons ordering_result ! Suc i))"
    "\<forall>k. filter (\<lambda>x. sd_distance x = k) (nr_salons ordering_result)
           = filter (\<lambda>x. sd_distance x = k) kept"
    by auto
  have k: "kept = [far_entry, near_entry]"
    using kept(1) unfolding radius ordering_loop by simp
  have len: "Suc 0 < length (nr_salons ordering_result)"
    by (simp add: ordering_result_def)
  have rows: "map sd_salon [far_entry, near_entry] = db_salons ordering_db"
    by (simp add: far_entry_def near_entry_def ordering_db_def)
  have res: "nr_salons ordering_result = [near_entry, far_entry]"
    by (simp add: ordering_result_def)
  from kept(3) len have "py_le (sd_distance (nr_salons ordering_result ! 0))
        (sd_distance (nr_salons ordering_result ! 1))"
    by (metis One_nat_def)
  with demo_ordering kept(1,2,4) k rows res show ?thesis by blast
qed

text \<open>
  With finite coordinates everywhere and a finite radius the search succeeds, and an
  approved salon with both coordinates present is in the result exactly when its computed
  distance is at most the radius.
\<close>

lemma calculate_distance_total_coordinates:
  assumes "finite_coordinate lat2" "finite_coordinate lon2"
  shows "\<exists>d. calculate_distance (PNum (Num lat1)) (PNum (Num lon1))
               (column_value lat2) (column_value lon2) = Inr d"
proof (cases "truthy (column_value lat2) \<and> truthy (column_value lon2)")
  case False
  then have "calculate_distance (PNum (Num lat1)) (PNum (Num lon1))
               (column_value lat2) (column_value lon2) = Inr PosInf"
    by (intro calculate_distance_falsy) auto
  then show ?thesis by simp
next
  case True
  with assms obtain c d where "lat2 = Some (Num c)" "lon2 = Some (Num d)"
    by (metis column_value.simps(1) finite_coordinate.elims(2) truthy.simps(1))
  then show ?thesis
    using calculate_distance_total_finite by simp
qed

lemma nearby_loop_total:
  assumes "\<forall>s \<in> set ss. finite_coordinate (s_latitude s) \<and> finite_coordinate (s_longitude s)"
  shows "\<exists>res. nearby_loop (PNum (Num ulat)) (PNum (Num ulon)) (PNum (Num r)) ss acc = Inr res"
  using assms
proof (induction ss arbitrary: acc)
  case Nil
  then show ?case by simp
next
  case (Cons s ss)
  then obtain d where "calculate_distance (PNum (Num ulat)) (PNum (Num ulon))
      (column_value (s_latitude s)) (column_value (s_longitude s)) = Inr d"
    using calculate_distance_total_coordinates by fastforce
  with Cons show ?case by simp
qed

lemma nearby_loop_complete:
  assumes "nearby_loop la lo r ss acc = Inr res"
    and "s \<in> set ss" "truthy (column_value (s_latitude s))" "truthy (column_value (s_longitude s))"
    and "calculate_distance la lo (column_value (s_latitude s)) (column_value (s_longitude s)) = Inr d"
    and "py_le_value d r = Inr True"
  shows "\<lparr>sd_salon = to_dict s, sd_distance = py_round2 d\<rparr> \<in> set res"
  using assms(1,2)
proof (induction ss arbitrary: acc)
  case Nil
  then show ?case by simp
next
  case (Cons t ss)
  show ?case
  proof (cases "t = s")
    case True
    with Cons.prems assms(3-6) have
      "nearby_loop la lo r ss (acc @ [\<lparr>sd_salon = to_dict s, sd_distance = py_round2 d\<rparr>]) = Inr res"
      by simp
    from nearby_loop_append [OF this] show ?thesis by auto
  next
    case False
    with Cons.prems have s: "s \<in> set ss" by simp
    from Cons.prems(1) obtain acc' where "nearby_loop la lo r ss acc' = Inr res"
      by (auto split: if_splits sum.splits)
    from Cons.IH [OF this s] show ?thesis .
  qed
qed

lemma nearby_exact_for_finite_radius:
  assumes user: "py_get data ''latitude'' PNone = Inr (PNum (Num ulat))"
      "py_get data ''longitude'' PNone = Inr (PNum (Num ulon))" "ulat \<noteq> 0" "ulon \<noteq> 0"
    and radius: "py_get data ''radius'' (PNum (Num 50)) = Inr (PNum (Num r))"
    and rows: "\<forall>s \<in> set (db_salons db).
                 finite_coordinate (s_latitude s) \<and> finite_coordinate (s_longitude s)"
  shows "\<exists>res. get_nearby_salons (Some data) db = Success res
           \<and> (\<forall>s \<in> set (db_salons db). \<forall>d.
                 s_is_approved s \<and> s_latitude s \<noteq> None \<and> s_longitude s \<noteq> None
                 \<and> calculate_distance (PNum (Num ulat)) (PNum (Num ulon))
                      (column_value (s_latitude s)) (column_value (s_longitude s)) = Inr d \<longrightarrow>
                 (s \<in> sd_salon ` set (nr_salons res) \<longleftrightarrow> py_le d (Num r)))"
proof -
  let ?la = "PNum (Num ulat)" and ?lo = "PNum (Num ulon)" and ?radius = "PNum (Num r)"
  from rows have "\<forall>s \<in> set (approved_salons db).
                 finite_coordinate (s_latitude s) \<and> finite_coordinate (s_longitude s)"
    by (simp add: approved_salons_def)
  from nearby_loop_total [OF this] obtain kept where
    kept: "nearby_loop ?la ?lo ?radius (approved_salons db) [] = Inr kept"
    by blast
  let ?res = "\<lparr>nr_salons = sort_by sd_distance kept,
               nr_total_count = length (sort_by sd_distance kept),
               nr_search_radius = ?radius\<rparr>"
  have res: "get_nearby_salons (Some data) db = Success ?res"
    using user radius kept by (simp add: get_nearby_salons_def Let_def)
  have "s \<in> sd_salon ` set (nr_salons ?res) \<longleftrightarrow> py_le d (Num r)"
    if s: "s \<in> set (db_salons db)" and ok: "s_is_approved s"
      and d: "calculate_distance ?la ?lo (column_value (s_latitude s))
                (column_value (s_longitude s)) = Inr d" for s d
  proof
    assume "s \<in> sd_salon ` set (nr_salons ?res)"
    then obtain x where x: "x \<in> set kept" "sd_salon x = s"
      by (auto simp: set_sort_by)
    from nearby_loop_append [OF kept] x d show "py_le d (Num r)"
      by auto
  next
    assume le: "py_le d (Num r)"
    have t: "truthy (column_value (s_latitude s)) \<and> truthy (column_value (s_longitude s))"
    proof (rule ccontr)
      assume "\<not> ?thesis"
      then have "calculate_distance ?la ?lo (column_value (s_latitude s))
                   (column_value (s_longitude s)) = Inr PosInf"
        by (intro calculate_distance_falsy) auto
      with d le show False by simp
    qed
    from s ok have "s \<in> set (approved_salons db)" by (simp add: approved_salons_def)
    from nearby_loop_complete [OF kept this _ _ d] t le
    have "\<lparr>sd_salon = to_dict s, sd_distance = py_round2 d\<rparr> \<in> set kept" by simp
    then have "sd_salon \<lparr>sd_salon = to_dict s, sd_distance = py_round2 d\<rparr>
                 \<in> sd_salon ` set (nr_salons ?res)"
      unfolding set_sort_by [symmetric, of kept sd_distance] by (intro imageI) simp
    then show "s \<in> sd_salon ` set (nr_salons ?res)" by (simp add: to_dict_def)
  qed
  with res show ?thesis by blast
qed

text \<open>
  The effect at the default radius: a user at (0.1, 31.2) and an approved salon on the
  equator at (0, 31.2) are about 11 km apart, and the search returns nothing.
\<close>

lemma nearby_misses_equator_salon:
  "get_nearby_salons
      (Some (PDict [(''latitude'', PNum (Num (1 / 10))), (''longitude'', PNum (Num (312 / 10)))]))
      \<lparr>db_salons = [equator_salon], db_barbers = []\<rparr>
     = Success \<lparr>nr_salons = [], nr_total_count = 0, nr_search_radius = PNum (Num 50)\<rparr>"
  "haversine_km (1 / 10) (312 / 10) 0 (312 / 10) \<le> 50"
proof -
  show "get_nearby_salons
      (Some (PDict [(''latitude'', PNum (Num (1 / 10))), (''longitude'', PNum (Num (312 / 10)))]))
      \<lparr>db_salons = [equator_salon], db_barbers = []\<rparr>
     = Success \<lparr>nr_salons = [], nr_total_count = 0, nr_search_radius = PNum (Num 50)\<rparr>"
    by (simp add: get_nearby_salons_def approved_salons_def equator_salon_def dict_get_def Let_def)
  have "haversine_km (1 / 10) (312 / 10) 0 (312 / 10) = haversine_km 0 (312 / 10) (1 / 10) (312 / 10)"
    unfolding haversine_km_def by (subst haversine_a_sym) (rule refl)
  also have "\<dots> = 6371 * ((1 / 10 - 0) * pi / 180)"
    by (intro haversine_km_same_longitude) simp_all
  also have "\<dots> \<le> 6371 * (1 / 10 * 4 / 180)"
    using pi_less_4 by simp
  also have "\<dots> \<le> 50" by simp
  finally show "haversine_km (1 / 10) (312 / 10) 0 (312 / 10) \<le> 50" .
qed

text \<open>
  Claim C1. Every approved salon with both coordinates present (not \<^verbatim>\<open>None\<close>) whose
  computed distance is at most the radius should be in the result. The loop tests the
  coordinates for truthiness, so a salon whose latitude is 0 is skipped; its computed
  distance is the infinite sentinel, which is at most an infinite radius
  (\<^verbatim>\<open>{"radius": 1e999}\<close> decodes to \<^verbatim>\<open>inf\<close>): the salon is eligible and within the radius,
  and the result is empty.
\<close>

theorem nearby_drops_zero_coordinate:
  assumes "py_get data ''latitude'' PNone = Inr user_lat" "truthy user_lat"
    and "py_get data ''longitude'' PNone = Inr user_lon" "truthy user_lon"
    and "py_get data ''radius'' (PNum (Num 50)) = Inr (PNum PosInf)"
    and "s_is_approved s" "s_latitude s = Some (Num 0)" "s_longitude s \<noteq> None"
  shows "get_nearby_salons (Some data) \<lparr>db_salons = [s], db_barbers = bs\<rparr>
           = Success \<lparr>nr_salons = [], nr_total_count = 0, nr_search_radius = PNum PosInf\<rparr>
         \<and> calculate_distance user_lat user_lon
               (column_value (s_latitude s)) (column_value (s_longitude s)) = Inr PosInf
         \<and> py_le PosInf PosInf"
  using assms
  by (simp add: get_nearby_salons_def approved_salons_def calculate_distance_def Let_def)

theorem nearby_drops_zero_coordinate_witness:
  "get_nearby_salons
      (Some (PDict [(''latitude'', PNum (Num 30)), (''longitude'', PNum (Num (312 / 10))),
                    (''radius'', PNum PosInf)]))
      \<lparr>db_salons = [equator_salon], db_barbers = []\<rparr>
     = Success \<lparr>nr_salons = [], nr_total_count = 0, nr_search_radius = PNum PosInf\<rparr>
   \<and> s_is_approved equator_salon \<and> s_latitude equator_salon \<noteq> None
   \<and> s_longitude equator_salon \<noteq> None
   \<and> calculate_distance (PNum (Num 30)) (PNum (Num (312 / 10)))
        (column_value (s_latitude equator_salon)) (column_value (s_longitude equator_salon))
       = Inr PosInf
   \<and> py_le PosInf PosInf"
  using nearby_drops_zero_coordinate
    [of "PDict [(''latitude'', PNum (Num 30)), (''longitude'', PNum (Num (312 / 10))),
                (''radius'', PNum PosInf)]"
        "PNum (Num 30)" "PNum (Num (312 / 10))" equator_salon "[]"]
  by (simp add: equator_salon_def dict_get_def)

end
